theory Spec2Isabelle
  imports Complex_Main "HOL-Library.Product_Lexorder"
begin

section \<open>Values, dates and tables\<close>

text \<open>
  The program of \<^verbatim>\<open>scripts/update_prices.py\<close> works on pandas tables of
  64-bit floats indexed by timestamps. A float is modelled by the exact real it stands for,
  with the three special values a float can take besides; \<open>NaN\<close> is what pandas uses
  for a missing cell. A timestamp is modelled by its calendar date (year, month, day);
  the lexicographic order on the triple is the chronological order.
\<close>

datatype fval = Num real | PInf | NInf | NaN

type_synonym date = "nat \<times> nat \<times> nat"

text \<open>A pandas \<open>Series\<close>: index labels with their values, in storage order.\<close>

type_synonym series = "(date \<times> fval) list"

text \<open>
  A pandas \<open>DataFrame\<close>: the column labels, and per row the index label and one cell
  per column. \<open>pd.DataFrame()\<close> is the table with no column and no row.
\<close>

record frame =
  columns :: "string list"
  rows :: "(date \<times> fval list) list"

definition empty_frame :: frame where
  "empty_frame = \<lparr>columns = [], rows = []\<rparr>"

text \<open>\<open>df.empty\<close>: some axis has length zero.\<close>

definition is_empty :: "frame \<Rightarrow> bool" where
  "is_empty df = (columns df = [] \<or> rows df = [])"

text \<open>\<open>s.to_frame(name=...)\<close>: a one-column table with the same index.\<close>

definition to_frame :: "string \<Rightarrow> series \<Rightarrow> frame" where
  "to_frame name s = \<lparr>columns = [name], rows = map (\<lambda>(d, v). (d, [v])) s\<rparr>"

text \<open>\<open>s.dropna()\<close> on a series, and \<open>df.dropna()\<close> on a table (a row goes when any
  of its cells is missing).\<close>

definition dropna :: "series \<Rightarrow> series" where
  "dropna s = filter (\<lambda>(d, v). v \<noteq> NaN) s"

definition dropna_frame :: "frame \<Rightarrow> frame" where
  "dropna_frame df = df\<lparr>rows := filter (\<lambda>(d, vs). NaN \<notin> set vs) (rows df)\<rparr>"

section \<open>Quarter-end resampling\<close>

text \<open>
  Quarters are numbered consecutively: quarter \<open>4 * y + k\<close> is the \<open>k\<close>-th quarter
  (from 0) of year \<open>y\<close>. \<open>quarter_end\<close> is the label pandas gives the bin under the
  frequency \<^verbatim>\<open>"QE"\<close>: the last calendar day of the quarter.
\<close>

definition quarter_of :: "date \<Rightarrow> nat" where
  "quarter_of dt = (case dt of (y, m, d) \<Rightarrow> 4 * y + (m - 1) div 3)"

definition quarter_end :: "nat \<Rightarrow> date" where
  "quarter_end q =
     (q div 4, 3 * (q mod 4) + 3, if q mod 4 = 0 \<or> q mod 4 = 3 then 31 else 30)"

text \<open>\<open>.last()\<close> of one bin: the last value that is not missing, \<open>NaN\<close> when the bin
  has none.\<close>

fun last_valid :: "fval list \<Rightarrow> fval" where
  "last_valid [] = NaN"
| "last_valid (v # vs) = (case last_valid vs of NaN \<Rightarrow> v | w \<Rightarrow> w)"

text \<open>
  \<open>s.resample("QE").last()\<close>: the rows are taken in index order (a stable sort), the
  bins run over every quarter from that of the smallest index label to that of the
  largest, and each bin, also an empty one, gives one row.
\<close>

definition bin_values :: "series \<Rightarrow> nat \<Rightarrow> fval list" where
  "bin_values s q = map snd (filter (\<lambda>(d, v). quarter_of d = q) (sort_key fst s))"

definition resample_QE_last :: "series \<Rightarrow> series" where
  "resample_QE_last s =
     (if s = [] then []
      else map (\<lambda>q. (quarter_end q, last_valid (bin_values s q)))
             [quarter_of (Min (set (map fst s))) ..< Suc (quarter_of (Max (set (map fst s))))])"

text \<open>The two lines both fetchers end with: resample, then drop the empty quarters.\<close>

definition quarterly_last :: "series \<Rightarrow> series" where
  "quarterly_last s = dropna (resample_QE_last s)"

section \<open>Text, exceptions and the outside world\<close>

text \<open>\<open>str(n)\<close> for a natural number, zero padding, and \<open>strftime("%Y-%m-%d")\<close>.\<close>

fun digits :: "nat \<Rightarrow> string" where
  "digits n = (if n < 10 then [''0123456789'' ! n]
               else digits (n div 10) @ [''0123456789'' ! (n mod 10)])"

declare digits.simps [simp del]

definition zfill :: "nat \<Rightarrow> string \<Rightarrow> string" where
  "zfill w s = replicate (w - length s) (CHR ''0'') @ s"

definition strftime :: "date \<Rightarrow> string" where
  "strftime dt =
     (case dt of (y, m, d) \<Rightarrow>
        zfill 4 (digits y) @ ''-'' @ zfill 2 (digits m) @ ''-'' @ zfill 2 (digits d))"

text \<open>The exceptions of the run, each with its message.\<close>

datatype exn =
    KeyError string
  | IndexError string
  | ValueError string
  | InvalidIndexError string
  | FileNotFoundError string
  | ProviderError string

fun str_exn :: "exn \<Rightarrow> string" where
  "str_exn (KeyError m) = [CHR 0x27] @ m @ [CHR 0x27]"
| "str_exn (IndexError m) = m"
| "str_exn (ValueError m) = m"
| "str_exn (InvalidIndexError m) = m"
| "str_exn (FileNotFoundError m) = m"
| "str_exn (ProviderError m) = m"

text \<open>
  What \<open>json.dump\<close> is given: the document as a value. The rendering with two spaces
  of indentation is a function of this value and is not modelled.
\<close>

datatype json = JNull | JNum fval | JStr string | JArr "json list" | JObj "(string \<times> json) list"

text \<open>
  A path is the list of its components below the repository root
  (\<open>Path(__file__).parent.parent\<close>), which exists.

  The world the run acts on: the object store holding every \<open>DataFrame\<close> (an address
  is a position in \<open>heap\<close>), the directories and files on disk, and the lines printed.
\<close>

type_synonym path = "string list"

record world =
  heap :: "frame list"
  dirs :: "path set"
  files :: "path \<rightharpoonup> json"
  out :: "string list"

type_synonym 'a result = "(exn + 'a) \<times> world"

definition print_line :: "string \<Rightarrow> world \<Rightarrow> world" where
  "print_line s w = w\<lparr>out := out w @ [s]\<rparr>"

text \<open>A new \<open>DataFrame\<close> object: stored behind every existing one.\<close>

definition alloc :: "frame \<Rightarrow> world \<Rightarrow> nat \<times> world" where
  "alloc df w = (length (heap w), w\<lparr>heap := heap w @ [df]\<rparr>)"

text \<open>\<open>p.mkdir(parents=True, exist_ok=True)\<close>: the directory and all its ancestors.\<close>

definition mkdir_parents :: "path \<Rightarrow> world \<Rightarrow> world" where
  "mkdir_parents p w = w\<lparr>dirs := dirs w \<union> set (map (\<lambda>n. take n p) [1 ..< Suc (length p)])\<rparr>"

text \<open>
  \<open>open(p, "w")\<close> followed by \<open>json.dump\<close>: the directory of the file has to exist,
  and the new content replaces whatever the file held. Failures of the disk itself
  (permissions, a full disk, a directory where the file should go) are outside the model.
\<close>

definition dir_exists :: "path \<Rightarrow> world \<Rightarrow> bool" where
  "dir_exists p w = (p = [] \<or> p \<in> dirs w)"

definition path_str :: "path \<Rightarrow> string" where
  "path_str p = concat (map (\<lambda>c. ''/'' @ c) p)"

definition write_file :: "path \<Rightarrow> json \<Rightarrow> world \<Rightarrow> unit result" where
  "write_file p doc w =
     (if dir_exists (butlast p) w then (Inr (), w\<lparr>files := (files w)(p \<mapsto> doc)\<rparr>)
      else (Inl (FileNotFoundError (''No such file or directory: '' @ path_str p)), w))"

section \<open>Configuration\<close>

definition FRED_SERIES :: "(string \<times> string) list" where
  "FRED_SERIES =
     [(''housing_us_median'', ''MSPUS''),
      (''housing_northeast'', ''MSPNE''),
      (''housing_midwest'', ''MSPMW''),
      (''housing_south'', ''MSPS''),
      (''housing_west'', ''MSPW'')]"

definition YFINANCE_TICKERS :: "(string \<times> string) list" where
  "YFINANCE_TICKERS =
     [(''btc_usd'', ''BTC-USD''),
      (''gold_usd'', ''GC=F''),
      (''sp500'', ''^GSPC'')]"

definition DATA_DIR :: path where
  "DATA_DIR = [''data'']"

definition START_DATE :: date where
  "START_DATE = (2010, 1, 1)"

section \<open>Table operations\<close>

text \<open>
  The cell of a row under a column label. Column labels of a table are distinct; a row
  too short for the label reads as missing.
\<close>

definition cell :: "string list \<Rightarrow> fval list \<Rightarrow> string \<Rightarrow> fval" where
  "cell cols vs c = (case map_of (zip cols vs) c of Some v \<Rightarrow> v | None \<Rightarrow> NaN)"

text \<open>\<open>df[c]\<close>: the column as a series, \<open>KeyError\<close> when there is no such column.\<close>

definition getitem :: "frame \<Rightarrow> string \<Rightarrow> exn + series" where
  "getitem df c =
     (if c \<in> set (columns df)
      then Inr (map (\<lambda>(d, vs). (d, cell (columns df) vs c)) (rows df))
      else Inl (KeyError c))"

text \<open>\<open>df[c] = s\<close> for a series \<open>s\<close> on the index of \<open>df\<close>: the column is replaced, or
  added as the last one.\<close>

definition setitem :: "frame \<Rightarrow> string \<Rightarrow> fval list \<Rightarrow> frame" where
  "setitem df c vals =
     (if c \<in> set (columns df)
      then df\<lparr>rows := map (\<lambda>((d, vs), v). (d, map (\<lambda>(k, x). if k = c then v else x) (zip (columns df) vs)))
                          (zip (rows df) vals)\<rparr>
      else \<lparr>columns = columns df @ [c],
            rows = map (\<lambda>((d, vs), v). (d, vs @ [v])) (zip (rows df) vals)\<rparr>)"

text \<open>The value of a series at an index label, missing when the label is not there.\<close>

definition at_date :: "series \<Rightarrow> date \<Rightarrow> fval" where
  "at_date s d = (case map_of s d of Some v \<Rightarrow> v | None \<Rightarrow> NaN)"

text \<open>
  \<open>pd.concat([s1, s2], axis=1, keys=[k1, k2])\<close>, an outer join on the index. Equal
  indexes are kept as they are and the rows paired by position. Otherwise both series
  are reindexed to the union of the labels, which pandas sorts when the indexes are
  timestamps; reindexing refuses an index with a repeated label.
\<close>

definition concat_axis1 :: "string \<Rightarrow> string \<Rightarrow> series \<Rightarrow> series \<Rightarrow> exn + frame" where
  "concat_axis1 k1 k2 s1 s2 =
     (if map fst s1 = map fst s2
      then Inr \<lparr>columns = [k1, k2],
                rows = map (\<lambda>((d, v), (d', v')). (d, [v, v'])) (zip s1 s2)\<rparr>
      else if \<not> distinct (map fst s1) \<or> \<not> distinct (map fst s2)
      then Inl (InvalidIndexError ''Reindexing only valid with uniquely valued Index objects'')
      else Inr \<lparr>columns = [k1, k2],
                rows = map (\<lambda>d. (d, [at_date s1 d, at_date s2 d]))
                         (sort (remdups (map fst s1 @ map fst s2)))\<rparr>)"

text \<open>
  Float division as numpy performs it: a zero divisor gives an infinity, or \<open>NaN\<close> for
  \<open>0 / 0\<close>, never an exception. The sign of a zero is not modelled: every zero is
  \<open>+0.0\<close>.
\<close>

fun fdiv :: "fval \<Rightarrow> fval \<Rightarrow> fval" where
  "fdiv (Num a) (Num b) =
     (if b = 0 then (if a = 0 then NaN else if 0 < a then PInf else NInf) else Num (a / b))"
| "fdiv NaN y = NaN"
| "fdiv x NaN = NaN"
| "fdiv (Num a) y = Num 0"
| "fdiv PInf (Num b) = (if 0 \<le> b then PInf else NInf)"
| "fdiv NInf (Num b) = (if 0 \<le> b then NInf else PInf)"
| "fdiv x y = NaN"

text \<open>
  \<open>round(x, n)\<close> of a numpy float: scale by \<open>10 ^ n\<close>, round to the nearest integer
  with ties to the even one, scale back. Infinities and \<open>NaN\<close> stay.
\<close>

definition rint :: "real \<Rightarrow> int" where
  "rint x =
     (let f = \<lfloor>x\<rfloor>; r = x - of_int f
      in if r < 1 / 2 then f else if 1 / 2 < r then f + 1 else if even f then f else f + 1)"

definition round_nd :: "fval \<Rightarrow> nat \<Rightarrow> fval" where
  "round_nd v n = (case v of Num x \<Rightarrow> Num (of_int (rint (x * 10 ^ n)) / 10 ^ n) | _ \<Rightarrow> v)"

section \<open>The ratio computation\<close>

text \<open>
  \<open>compute_btc_ratio(btc_df, asset_df)\<close>. The arguments are addresses of tables in
  the store. \<open>pd.concat\<close> and \<open>dropna\<close> each build a new table; the assignment of
  the column \<open>asset_per_btc\<close> changes the table that \<open>combined\<close> then names, in place.
\<close>

definition compute_btc_ratio :: "nat \<Rightarrow> nat \<Rightarrow> world \<Rightarrow> nat result" where
  "compute_btc_ratio btc_df asset_df w =
     (case getitem (heap w ! btc_df) ''price'' of
        Inl e \<Rightarrow> (Inl e, w)
      | Inr btc_price \<Rightarrow>
     (case getitem (heap w ! asset_df) ''price'' of
        Inl e \<Rightarrow> (Inl e, w)
      | Inr asset_price \<Rightarrow>
     (case concat_axis1 ''btc'' ''asset'' btc_price asset_price of
        Inl e \<Rightarrow> (Inl e, w)
      | Inr c \<Rightarrow>
          let (combined, w1) = alloc c w;
              (combined, w2) = alloc (dropna_frame (heap w1 ! combined)) w1;
              cur = heap w2 ! combined;
              ratio = map (\<lambda>(d, vs). fdiv (cell (columns cur) vs ''asset'')
                                          (cell (columns cur) vs ''btc'')) (rows cur)
          in (Inr combined,
              w2\<lparr>heap := (heap w2)[combined := setitem cur ''asset_per_btc'' ratio]\<rparr>))))"

section \<open>Serialisation\<close>

text \<open>One record of the ratio document; \<open>"btc" in row\<close> asks for the column label.\<close>

definition ratio_record :: "string list \<Rightarrow> date \<times> fval list \<Rightarrow> json" where
  "ratio_record cols r =
     (case r of (timestamp, row) \<Rightarrow>
        JObj [(''date'', JStr (strftime timestamp)),
              (''btc_price'',
                 if ''btc'' \<in> set cols then JNum (round_nd (cell cols row ''btc'') 2) else JNull),
              (''asset_price'',
                 if ''asset'' \<in> set cols then JNum (round_nd (cell cols row ''asset'') 2) else JNull),
              (''asset_per_btc'',
                 if ''asset_per_btc'' \<in> set cols
                 then JNum (round_nd (cell cols row ''asset_per_btc'') 10) else JNull)])"

text \<open>
  \<open>save_to_json(df, filepath, asset_name)\<close>; \<open>now\<close> is the text
  \<open>datetime.now().isoformat()\<close> gives at the call.
\<close>

definition save_to_json :: "nat \<Rightarrow> path \<Rightarrow> string \<Rightarrow> string \<Rightarrow> world \<Rightarrow> unit result" where
  "save_to_json df filepath asset_name now w =
     (let records = map (ratio_record (columns (heap w ! df))) (rows (heap w ! df));
          output = JObj [(''asset'', JStr asset_name),
                         (''updated_at'', JStr now),
                         (''data'', JArr records)];
          w1 = mkdir_parents (butlast filepath) w
      in case write_file filepath output w1 of
           (Inl e, w2) \<Rightarrow> (Inl e, w2)
         | (Inr u, w2) \<Rightarrow>
             (Inr (), print_line (''  Saved '' @ digits (length records) @ '' records to ''
                                   @ last filepath) w2))"

text \<open>One record of the BTC-in-USD document: the price as it is, and its inverse.\<close>

definition usd_record :: "string list \<Rightarrow> date \<times> fval list \<Rightarrow> json" where
  "usd_record cols r =
     (case r of (timestamp, row) \<Rightarrow>
        JObj [(''date'', JStr (strftime timestamp)),
              (''btc_price_usd'', JNum (cell cols row ''price'')),
              (''btc_per_usd'', JNum (fdiv (Num 1) (cell cols row ''price'')))])"

text \<open>
  \<open>save_btc_usd(btc_df)\<close>. \<open>row["price"]\<close> raises for the first row when the table
  has no such column. The file is opened with no \<open>mkdir\<close> before it.
\<close>

definition save_btc_usd :: "nat \<Rightarrow> string \<Rightarrow> world \<Rightarrow> unit result" where
  "save_btc_usd btc_df now w =
     (let df = heap w ! btc_df in
      if rows df \<noteq> [] \<and> ''price'' \<notin> set (columns df) then (Inl (KeyError ''price''), w)
      else
        let records = map (usd_record (columns df)) (rows df);
            output = JObj [(''asset'', JStr ''USD in BTC''),
                           (''updated_at'', JStr now),
                           (''data'', JArr records)];
            filepath = DATA_DIR @ [''btc_usd.json'']
        in case write_file filepath output w of
             (Inl e, w2) \<Rightarrow> (Inl e, w2)
           | (Inr u, w2) \<Rightarrow>
               (Inr (), print_line (''  Saved '' @ digits (length records) @ '' records to ''
                                     @ last filepath) w2))"

section \<open>The market data fetcher\<close>

text \<open>
  What \<open>yf.download\<close> hands back: a table whose column labels are flat or have two
  levels (field, ticker). The call itself is the provider's: it either raises or
  returns a table.
\<close>

datatype col_index = Index "string list" | MultiIndex "(string \<times> string) list"

record yf_frame =
  yf_columns :: col_index
  yf_rows :: "(date \<times> fval list) list"

definition yf_empty :: "yf_frame \<Rightarrow> bool" where
  "yf_empty df =
     ((case yf_columns df of Index cs \<Rightarrow> cs = [] | MultiIndex ps \<Rightarrow> ps = []) \<or> yf_rows df = [])"

text \<open>The \<open>isinstance\<close> test and \<open>get_level_values(0)\<close>.\<close>

definition flatten_columns :: "yf_frame \<Rightarrow> frame" where
  "flatten_columns df =
     \<lparr>columns = (case yf_columns df of Index cs \<Rightarrow> cs | MultiIndex ps \<Rightarrow> map fst ps),
      rows = yf_rows df\<rparr>"

definition fetch_yfinance_data ::
  "(string \<Rightarrow> exn + yf_frame) \<Rightarrow> string \<Rightarrow> string \<Rightarrow> world \<Rightarrow> frame result" where
  "fetch_yfinance_data download ticker name w =
     (let w1 = print_line (''Fetching '' @ name @ '' ('' @ ticker @ '')...'') w in
      case download ticker of
        Inl e \<Rightarrow> (Inl e, w1)
      | Inr df \<Rightarrow>
          if yf_empty df
          then (Inr empty_frame, print_line (''  Warning: No data returned for '' @ ticker) w1)
          else
            (case getitem (flatten_columns df) ''Close'' of
               Inl e \<Rightarrow> (Inl e, w1)
             | Inr close \<Rightarrow>
                 let quarterly = resample_QE_last close;
                     quarterly = dropna quarterly
                 in (Inr (to_frame ''price'' quarterly),
                     print_line (''  Got '' @ digits (length quarterly)
                                 @ '' quarterly data points'') w1)))"

section \<open>The housing data fetcher\<close>

text \<open>
  What \<open>pd.read_csv\<close> hands back: the header and the rows of cells, as text (an absent
  cell is the empty text). The download either raises or returns a table.
\<close>

record csv =
  csv_header :: "string list"
  csv_rows :: "string list list"

definition upper :: "string \<Rightarrow> string" where
  "upper s =
     map (\<lambda>c. case map_of (zip ''abcdefghijklmnopqrstuvwxyz'' ''ABCDEFGHIJKLMNOPQRSTUVWXYZ'') c of
                 Some u \<Rightarrow> u | None \<Rightarrow> c) s"

definition text_cell :: "string list \<Rightarrow> string list \<Rightarrow> string \<Rightarrow> string" where
  "text_cell header row c = (case map_of (zip header row) c of Some t \<Rightarrow> t | None \<Rightarrow> [])"

definition is_digit :: "char \<Rightarrow> bool" where
  "is_digit c = (c \<in> set ''0123456789'')"

definition nat_of_digits :: "string \<Rightarrow> nat" where
  "nat_of_digits s =
     foldl (\<lambda>a c. 10 * a + length (takeWhile (\<lambda>x. x \<noteq> c) ''0123456789'')) 0 s"

definition days_in_month :: "nat \<Rightarrow> nat \<Rightarrow> nat" where
  "days_in_month y m =
     (if m = 2 then (if y mod 4 = 0 \<and> (y mod 100 \<noteq> 0 \<or> y mod 400 = 0) then 29 else 28)
      else if m = 4 \<or> m = 6 \<or> m = 9 \<or> m = 11 then 30 else 31)"

text \<open>
  \<open>pd.to_datetime\<close> on one cell. The model reads the ISO form \<open>YYYY-MM-DD\<close>, which
  is what FRED publishes; an absent cell is \<open>NaT\<close> (\<open>None\<close>), anything else raises.
\<close>

definition parse_date :: "string \<Rightarrow> exn + date option" where
  "parse_date t =
     (if t = [] then Inr None
      else if length t = 10 \<and> t ! 4 = CHR ''-'' \<and> t ! 7 = CHR ''-''
              \<and> list_all is_digit (take 4 t @ take 2 (drop 5 t) @ drop 8 t)
      then (let y = nat_of_digits (take 4 t);
                m = nat_of_digits (take 2 (drop 5 t));
                d = nat_of_digits (drop 8 t)
            in if 1 \<le> m \<and> m \<le> 12 \<and> 1 \<le> d \<and> d \<le> days_in_month y m
               then Inr (Some (y, m, d))
               else Inl (ValueError (''Unknown datetime string format, unable to parse: '' @ t)))
      else Inl (ValueError (''Unknown datetime string format, unable to parse: '' @ t)))"

fun to_datetime :: "string list \<Rightarrow> exn + date option list" where
  "to_datetime [] = Inr []"
| "to_datetime (t # ts) =
     (case parse_date t of
        Inl e \<Rightarrow> Inl e
      | Inr d \<Rightarrow> (case to_datetime ts of Inl e \<Rightarrow> Inl e | Inr ds \<Rightarrow> Inr (d # ds)))"

text \<open>
  \<open>pd.to_numeric(..., errors="coerce")\<close> on one cell. A plain decimal (a sign,
  digits, a point, digits; at least one digit) is read as its value, and a token that is
  no number is coerced to \<open>NaN\<close>. The further number forms pandas reads (exponents,
  \<open>inf\<close>) do not occur in the FRED files and are not modelled: they read as \<open>NaN\<close>
  here.
\<close>

definition parse_decimal :: "string \<Rightarrow> real option" where
  "parse_decimal t =
     (let neg = (t \<noteq> [] \<and> hd t = CHR ''-'');
          body = (if t \<noteq> [] \<and> (hd t = CHR ''-'' \<or> hd t = CHR ''+'') then tl t else t);
          ip = takeWhile is_digit body;
          rest = dropWhile is_digit body;
          fp = (if rest = [] then [] else tl rest);
          ok = (rest = [] \<or> (hd rest = CHR ''.'' \<and> list_all is_digit fp));
          mag = real (nat_of_digits ip) + real (nat_of_digits fp) / 10 ^ length fp
      in if ok \<and> (ip \<noteq> [] \<or> fp \<noteq> []) then Some (if neg then - mag else mag) else None)"

definition to_numeric :: "string \<Rightarrow> fval" where
  "to_numeric t = (case parse_decimal t of Some x \<Rightarrow> Num x | None \<Rightarrow> NaN)"

text \<open>
  The date column: the first column named \<open>DATE\<close> or \<open>OBSERVATION_DATE\<close> in any
  case, else the first column. The value column: the one named after the series, else the
  second column. \<open>df.columns[0]\<close> and \<open>df.columns[1]\<close> raise when the table is too
  narrow.
\<close>

definition date_column :: "string list \<Rightarrow> exn + string" where
  "date_column hdr =
     (case find (\<lambda>col. upper col = ''DATE'' \<or> upper col = ''OBSERVATION_DATE'') hdr of
        Some col \<Rightarrow> Inr col
      | None \<Rightarrow> (if hdr = [] then Inl (IndexError ''index 0 is out of bounds'')
                  else Inr (hd hdr)))"

definition value_column :: "string list \<Rightarrow> string \<Rightarrow> exn + string" where
  "value_column hdr series_id =
     (if series_id \<in> set hdr then Inr series_id
      else if length hdr < 2 then Inl (IndexError ''index 1 is out of bounds'')
      else Inr (hdr ! 1))"

text \<open>
  The body of the \<open>try\<close> block after the download: pick the two columns, parse the
  dates (they become the index), keep the value column as \<open>price\<close> and coerce it to
  numbers.
\<close>

definition fred_parse :: "csv \<Rightarrow> string \<Rightarrow> exn + (date option \<times> fval) list" where
  "fred_parse df series_id =
     (let hdr = csv_header df in
      case date_column hdr of
        Inl e \<Rightarrow> Inl e
      | Inr date_col \<Rightarrow>
     (case value_column hdr series_id of
        Inl e \<Rightarrow> Inl e
      | Inr value_col \<Rightarrow>
     (case to_datetime (map (\<lambda>row. text_cell hdr row date_col) (csv_rows df)) of
        Inl e \<Rightarrow> Inl e
      | Inr idx \<Rightarrow>
          if value_col \<notin> set (removeAll date_col hdr) then Inl (KeyError value_col)
          else Inr (zip idx (map (\<lambda>row. to_numeric (text_cell hdr row value_col))
                                 (csv_rows df))))))"

text \<open>
  \<open>fetch_fred_data(series_id, name)\<close>. The \<open>except Exception\<close> clause covers the
  download and \<open>fred_parse\<close>. The comparison with \<open>START_DATE\<close> is false on \<open>NaT\<close>.
\<close>

definition fetch_fred_data ::
  "(string \<Rightarrow> exn + csv) \<Rightarrow> string \<Rightarrow> string \<Rightarrow> world \<Rightarrow> frame result" where
  "fetch_fred_data read series_id name w =
     (let w1 = print_line (''Fetching '' @ name @ '' ('' @ series_id @ '')...'') w;
          url = ''https://fred.stlouisfed.org/graph/fredgraph.csv?id='' @ series_id
      in case (case read url of Inl e \<Rightarrow> Inl e | Inr df \<Rightarrow> fred_parse df series_id) of
           Inl e \<Rightarrow>
             (Inr empty_frame,
              print_line (''  Warning: Failed to fetch '' @ series_id @ '': '' @ str_exn e) w1)
         | Inr df \<Rightarrow>
             let price = List.map_filter
                           (\<lambda>(i, v). case i of None \<Rightarrow> None
                                      | Some d \<Rightarrow> if START_DATE \<le> d then Some (d, v) else None) df;
                 quarterly = resample_QE_last price;
                 quarterly = dropna quarterly
             in (Inr (to_frame ''price'' quarterly),
                 print_line (''  Got '' @ digits (length quarterly)
                             @ '' quarterly data points'') w1))"

section \<open>The orchestrator\<close>

text \<open>
  What a run depends on from outside: the two providers, and the text
  \<open>datetime.now().isoformat()\<close> gives while the document of an asset is built.
\<close>

record env =
  yf_download :: "string \<Rightarrow> exn + yf_frame"
  read_csv :: "string \<Rightarrow> exn + csv"
  now :: "string \<Rightarrow> string"

text \<open>A \<open>for\<close> loop whose body may raise: the first exception ends it.\<close>

fun for_each :: "('a \<Rightarrow> world \<Rightarrow> unit result) \<Rightarrow> 'a list \<Rightarrow> world \<Rightarrow> unit result" where
  "for_each body [] w = (Inr (), w)"
| "for_each body (x # xs) w =
     (case body x w of (Inl e, w1) \<Rightarrow> (Inl e, w1) | (Inr u, w1) \<Rightarrow> for_each body xs w1)"

text \<open>The three lines both loops share: ratio against BTC, then the document.\<close>

definition process_asset :: "env \<Rightarrow> nat \<Rightarrow> string \<Rightarrow> frame \<Rightarrow> world \<Rightarrow> unit result" where
  "process_asset e btc_df name fetched w =
     (let (asset_df, w1) = alloc fetched w in
      if \<not> is_empty (heap w1 ! asset_df)
      then (case compute_btc_ratio btc_df asset_df w1 of
              (Inl x, w2) \<Rightarrow> (Inl x, w2)
            | (Inr combined, w2) \<Rightarrow>
                save_to_json combined (DATA_DIR @ [name @ ''.json'']) name (now e name) w2)
      else (Inr (), w1))"

definition yf_step :: "env \<Rightarrow> nat \<Rightarrow> string \<times> string \<Rightarrow> world \<Rightarrow> unit result" where
  "yf_step e btc_df item w =
     (case item of (name, ticker) \<Rightarrow>
        if name = ''btc_usd'' then (Inr (), w)
        else (case fetch_yfinance_data (yf_download e) ticker name w of
                (Inl x, w1) \<Rightarrow> (Inl x, w1)
              | (Inr fetched, w1) \<Rightarrow> process_asset e btc_df name fetched w1))"

definition fred_step :: "env \<Rightarrow> nat \<Rightarrow> string \<times> string \<Rightarrow> world \<Rightarrow> unit result" where
  "fred_step e btc_df item w =
     (case item of (name, series_id) \<Rightarrow>
        (case fetch_fred_data (read_csv e) series_id name w of
           (Inl x, w1) \<Rightarrow> (Inl x, w1)
         | (Inr fetched, w1) \<Rightarrow> process_asset e btc_df name fetched w1))"

definition banner :: "world \<Rightarrow> world" where
  "banner w =
     print_line (CHR 0x0A # ''[1/3] Fetching yfinance data...'')
       (print_line (replicate 50 (CHR ''=''))
         (print_line ''BTC Purchasing Power - Data Update''
           (print_line (replicate 50 (CHR ''='')) w)))"

definition main :: "env \<Rightarrow> world \<Rightarrow> unit result" where
  "main e w =
     (case map_of YFINANCE_TICKERS ''btc_usd'' of
        None \<Rightarrow> (Inl (KeyError ''btc_usd''), banner w)
      | Some btc_ticker \<Rightarrow>
     (case fetch_yfinance_data (yf_download e) btc_ticker ''Bitcoin'' (banner w) of
        (Inl x, w1) \<Rightarrow> (Inl x, w1)
      | (Inr fetched, w1) \<Rightarrow>
          let (btc_df, w2) = alloc fetched w1 in
          if is_empty (heap w2 ! btc_df)
          then (Inr (), print_line ''Error: Could not fetch BTC data. Aborting.'' w2)
          else
     (case save_btc_usd btc_df (now e ''USD in BTC'') w2 of
        (Inl x, w3) \<Rightarrow> (Inl x, w3)
      | (Inr u, w3) \<Rightarrow>
     (case for_each (yf_step e btc_df) YFINANCE_TICKERS w3 of
        (Inl x, w4) \<Rightarrow> (Inl x, w4)
      | (Inr u, w4) \<Rightarrow>
     (case for_each (fred_step e btc_df) FRED_SERIES
             (print_line (CHR 0x0A # ''[2/3] Fetching FRED housing data...'') w4) of
        (Inl x, w5) \<Rightarrow> (Inl x, w5)
      | (Inr u, w5) \<Rightarrow>
          (Inr (), print_line (replicate 50 (CHR ''=''))
                     (print_line (CHR 0x0A # ''[3/3] Done!'') w5)))))))"

section \<open>Well-formed quarterly series\<close>


definition quarterly_price_series :: "series \<Rightarrow> bool" where
  "quarterly_price_series s =
     (sorted_wrt (<) (map fst s) \<and> distinct (map (quarter_of \<circ> fst) s) \<and>
      list_all (\<lambda>(d, v). d = quarter_end (quarter_of d) \<and> v \<noteq> NaN) s)"

section \<open>Tables that stay as they are\<close>

text \<open>Every table of the store of \<open>w\<close> is still there, unchanged, in the store of
  \<open>w'\<close>; new tables come behind.\<close>

definition heap_kept :: "world \<Rightarrow> world \<Rightarrow> bool" where
  "heap_kept w w' = (take (length (heap w)) (heap w') = heap w)"

section \<open>Reading a document\<close>


section \<open>Dates of a parsed file\<close>



section \<open>Properties of the resampling\<close>



lemma last_valid_single: "last_valid [v] = v"
  by (cases v) auto

lemma quarter_of_end: "quarter_of (quarter_end q) = q"
  unfolding quarter_of_def quarter_end_def by simp presburger

lemma quarter_end_less: "q < q' \<Longrightarrow> quarter_end q < quarter_end q'"
proof -
  assume lt: "q < q'"
  have le: "q div 4 \<le> q' div 4" using lt by (simp add: div_le_mono)
  show ?thesis
  proof (cases "q div 4 = q' div 4")
    case True
    have "q = q div 4 * 4 + q mod 4" "q' = q' div 4 * 4 + q' mod 4" by simp_all
    with lt True have "q mod 4 < q' mod 4" by linarith
    with True show ?thesis by (simp add: quarter_end_def less_prod_def)
  next
    case False
    with le have "q div 4 < q' div 4" by simp
    then show ?thesis by (simp add: quarter_end_def less_prod_def)
  qed
qed

lemma quarter_end_inj: "quarter_end q = quarter_end q' \<Longrightarrow> q = q'"
  by (metis quarter_of_end)

lemma sorted_quarter_ends: "sorted_wrt (<) qs \<Longrightarrow> sorted_wrt (<) (map quarter_end qs)"
  by (simp add: sorted_wrt_map quarter_end_less sorted_wrt_mono_rel[of qs "(<)"])

lemma Min_sorted: "sorted xs \<Longrightarrow> xs \<noteq> [] \<Longrightarrow> Min (set xs) = hd xs"
  by (cases xs) (auto intro!: Min_eqI)

lemma Max_sorted: "sorted xs \<Longrightarrow> xs \<noteq> [] \<Longrightarrow> Max (set xs) = last xs"
proof -
  assume s: "sorted xs" and n: "xs \<noteq> []"
  then have "xs = butlast xs @ [last xs]" by simp
  then have "sorted (butlast xs @ [last xs])" using s by simp
  then have "\<forall>x\<in>set (butlast xs). x \<le> last xs" by (simp add: sorted_append)
  moreover have "set xs = insert (last xs) (set (butlast xs))"
    using n by (metis \<open>xs = butlast xs @ [last xs]\<close> list.simps(15) set_append Un_insert_right sup_bot.right_neutral set_simps(1) append_Nil2 rotate1.simps(2) set_rotate1)
  ultimately show ?thesis by (auto intro!: Max_eqI)
qed

lemma quarterly_last_eq:
  "s \<noteq> [] \<Longrightarrow> quarterly_last s =
     map (\<lambda>q. (quarter_end q, last_valid (bin_values s q)))
       (filter (\<lambda>q. last_valid (bin_values s q) \<noteq> NaN)
          [quarter_of (Min (set (map fst s))) ..< Suc (quarter_of (Max (set (map fst s))))])"
  by (simp add: quarterly_last_def resample_QE_last_def dropna_def filter_map comp_def)

lemma filter_eq_distinct:
  "distinct xs \<Longrightarrow> filter (\<lambda>y. y = x) xs = (if x \<in> set xs then [x] else [])"
  by (induction xs) auto

lemma bin_values_quarter_ends:
  assumes "sorted_wrt (<) qs"
  shows "bin_values (map (\<lambda>q. (quarter_end q, g q)) qs) q = (if q \<in> set qs then [g q] else [])"
proof -
  let ?t = "map (\<lambda>q. (quarter_end q, g q)) qs"
  have "sorted (map fst ?t)"
    using sorted_quarter_ends[OF assms] by (simp add: comp_def strict_sorted_iff)
  then have srt: "sort_key fst ?t = ?t" by (rule sort_key_id_if_sorted)
  have d: "distinct qs" using assms by (simp add: strict_sorted_iff)
  have "filter (\<lambda>(d, v). quarter_of d = q) ?t = map (\<lambda>q. (quarter_end q, g q)) (filter (\<lambda>y. y = q) qs)"
    by (simp add: filter_map comp_def quarter_of_end)
  then show ?thesis
    by (simp add: bin_values_def srt filter_eq_distinct[OF d])
qed

lemma range_of_sorted:
  assumes "sorted_wrt (<) (qs::nat list)" "qs \<noteq> []"
  shows "filter (\<lambda>q. q \<in> set qs) [hd qs ..< Suc (last qs)] = qs"
proof (rule sorted_distinct_set_unique)
  have s: "sorted qs" and d: "distinct qs" using assms(1) by (simp_all add: strict_sorted_iff)
  show "sorted (filter (\<lambda>q. q \<in> set qs) [hd qs ..< Suc (last qs)])"
    by (rule sorted_wrt_filter) (rule sorted_upt)
  show "distinct (filter (\<lambda>q. q \<in> set qs) [hd qs ..< Suc (last qs)])"
    by (rule distinct_filter) (rule distinct_upt)
  show "sorted qs" by (rule s)
  show "distinct qs" by (rule d)
  have "\<forall>x\<in>set qs. hd qs \<le> x \<and> x \<le> last qs"
    using Min_sorted[OF s assms(2)] Max_sorted[OF s assms(2)]
    by (metis List.finite_set Max_ge Min_le)
  then show "set (filter (\<lambda>q. q \<in> set qs) [hd qs ..< Suc (last qs)]) = set qs"
    unfolding set_filter set_upt by auto
qed

lemma resample_quarter_ends:
  assumes "sorted_wrt (<) qs" "qs \<noteq> []"
  shows "resample_QE_last (map (\<lambda>q. (quarter_end q, g q)) qs) =
           map (\<lambda>q. (quarter_end q, if q \<in> set qs then g q else NaN)) [hd qs ..< Suc (last qs)]"
proof -
  let ?t = "map (\<lambda>q. (quarter_end q, g q)) qs"
  have s: "sorted (map quarter_end qs)"
    using sorted_quarter_ends[OF assms(1)] by (simp add: strict_sorted_iff)
  have ne: "map quarter_end qs \<noteq> []" using assms(2) by simp
  have mf: "map fst ?t = map quarter_end qs" by (simp add: comp_def)
  have lo: "quarter_of (Min (set (map fst ?t))) = hd qs"
    unfolding mf using Min_sorted[OF s ne] assms(2) by (simp add: hd_map quarter_of_end)
  have hi: "quarter_of (Max (set (map fst ?t))) = last qs"
    unfolding mf using Max_sorted[OF s ne] assms(2) by (simp add: last_map quarter_of_end)
  have "?t \<noteq> []" using assms(2) by simp
  then have "resample_QE_last ?t = map (\<lambda>q. (quarter_end q, last_valid (bin_values ?t q))) [hd qs ..< Suc (last qs)]"
    unfolding resample_QE_last_def lo hi by simp
  also have "\<dots> = map (\<lambda>q. (quarter_end q, if q \<in> set qs then g q else NaN)) [hd qs ..< Suc (last qs)]"
    by (rule map_cong) (simp_all add: bin_values_quarter_ends[OF assms(1)] last_valid_single)
  finally show ?thesis .
qed

lemma quarterly_last_fixed:
  assumes "sorted_wrt (<) qs" "\<forall>q\<in>set qs. g q \<noteq> NaN"
  shows "quarterly_last (map (\<lambda>q. (quarter_end q, g q)) qs) = map (\<lambda>q. (quarter_end q, g q)) qs"
proof (cases "qs = []")
  case True
  then show ?thesis by (simp add: quarterly_last_def resample_QE_last_def dropna_def)
next
  case False
  have "quarterly_last (map (\<lambda>q. (quarter_end q, g q)) qs) =
          map (\<lambda>q. (quarter_end q, if q \<in> set qs then g q else NaN))
            (filter (\<lambda>q. q \<in> set qs) [hd qs ..< Suc (last qs)])"
    unfolding quarterly_last_def resample_quarter_ends[OF assms(1) False] dropna_def
    using assms(2) by (simp add: filter_map comp_def cong: filter_cong)
  also have "\<dots> = map (\<lambda>q. (quarter_end q, if q \<in> set qs then g q else NaN)) qs"
    by (simp only: range_of_sorted[OF assms(1) False])
  also have "\<dots> = map (\<lambda>q. (quarter_end q, g q)) qs" by simp
  finally show ?thesis .
qed

lemma quarterly_last_shape:
  "\<exists>qs. sorted_wrt (<) qs \<and> (\<forall>q\<in>set qs. last_valid (bin_values s q) \<noteq> NaN) \<and>
        quarterly_last s = map (\<lambda>q. (quarter_end q, last_valid (bin_values s q))) qs"
proof (cases "s = []")
  case True
  then have "quarterly_last s = []" by (simp add: quarterly_last_def resample_QE_last_def dropna_def)
  then show ?thesis by (intro exI[of _ "[]"]) simp
next
  case False
  let ?qs = "filter (\<lambda>q. last_valid (bin_values s q) \<noteq> NaN)
          [quarter_of (Min (set (map fst s))) ..< Suc (quarter_of (Max (set (map fst s))))]"
  have "sorted_wrt (<) ?qs" by (rule sorted_wrt_filter) (rule sorted_wrt_upt)
  moreover have "\<forall>q\<in>set ?qs. last_valid (bin_values s q) \<noteq> NaN" by simp
  ultimately show ?thesis using quarterly_last_eq[OF False] by blast
qed

lemma quarterly_last_idem: "quarterly_last (quarterly_last s) = quarterly_last s"
proof -
  obtain qs where "sorted_wrt (<) qs" "\<forall>q\<in>set qs. last_valid (bin_values s q) \<noteq> NaN"
    "quarterly_last s = map (\<lambda>q. (quarter_end q, last_valid (bin_values s q))) qs"
    using quarterly_last_shape by blast
  then show ?thesis using quarterly_last_fixed[of qs "\<lambda>q. last_valid (bin_values s q)"] by simp
qed

lemma resample_idem: "resample_QE_last (resample_QE_last s) = resample_QE_last s"
proof (cases "s = [] \<or> quarter_of (Max (set (map fst s))) < quarter_of (Min (set (map fst s)))")
  case True
  then have "resample_QE_last s = []" by (auto simp: resample_QE_last_def)
  then show ?thesis by (simp add: resample_QE_last_def)
next
  case False
  let ?lo = "quarter_of (Min (set (map fst s)))" and ?hi = "quarter_of (Max (set (map fst s)))"
  let ?qs = "[?lo ..< Suc ?hi]"
  have r: "resample_QE_last s = map (\<lambda>q. (quarter_end q, last_valid (bin_values s q))) ?qs"
    using False by (simp add: resample_QE_last_def)
  have ne: "?qs \<noteq> []" using False by simp
  have h: "hd ?qs = ?lo" using False by (simp add: upt_conv_Cons del: upt_Suc)
  have l: "last ?qs = ?hi" using False by simp
  have "resample_QE_last (resample_QE_last s) =
          map (\<lambda>q. (quarter_end q, if q \<in> set ?qs then last_valid (bin_values s q) else NaN)) ?qs"
    unfolding r using resample_quarter_ends[OF sorted_wrt_upt ne, of "\<lambda>q. last_valid (bin_values s q)"]
    unfolding h l .
  also have "\<dots> = map (\<lambda>q. (quarter_end q, last_valid (bin_values s q))) ?qs"
    by (rule map_cong) simp_all
  finally show ?thesis using r by simp
qed




section \<open>Properties of the fetchers\<close>







lemmas eval_defs =
  fetch_yfinance_data_def fetch_fred_data_def fred_parse_def date_column_def value_column_def
  print_line_def yf_empty_def
  getitem_def flatten_columns_def cell_def upper_def text_cell_def parse_date_def is_digit_def
  nat_of_digits_def days_in_month_def to_numeric_def parse_decimal_def START_DATE_def
  List.map_filter_def less_eq_prod_def resample_QE_last_def bin_values_def quarter_of_def
  quarter_end_def dropna_def to_frame_def digits.simps upt_conv_Cons Let_def empty_frame_def



section \<open>Properties of the ratio computation\<close>

lemma getitem_to_frame: "getitem (to_frame ''price'' s) ''price'' = Inr s"
proof -
  have "map (\<lambda>(d, vs). (d, cell [''price''] vs ''price'')) (map (\<lambda>(d, v). (d, [v])) s) = s"
    by (induction s) (auto simp: cell_def)
  then show ?thesis by (simp add: getitem_def to_frame_def)
qed

lemma compute_btc_ratio_eq:
  assumes "getitem (heap w ! btc_df) ''price'' = Inr sb"
      and "getitem (heap w ! asset_df) ''price'' = Inr sa"
      and "concat_axis1 ''btc'' ''asset'' sb sa = Inr c"
  shows "compute_btc_ratio btc_df asset_df w =
          (Inr (Suc (length (heap w))),
           w\<lparr>heap := heap w @ [c, setitem (dropna_frame c) ''asset_per_btc''
                 (map (\<lambda>(d, vs). fdiv (cell (columns c) vs ''asset'') (cell (columns c) vs ''btc''))
                      (rows (dropna_frame c)))]\<rparr>)"
  using assms
  by (simp add: compute_btc_ratio_def alloc_def Let_def nth_append dropna_frame_def list_update_append)

lemma concat_columns: "concat_axis1 k1 k2 s1 s2 = Inr c \<Longrightarrow> columns c = [k1, k2]"
  by (auto simp: concat_axis1_def split: if_splits)

lemma setitem_new_rows:
  "c \<notin> set (columns df) \<Longrightarrow> length vals = length (rows df) \<Longrightarrow>
   map fst (rows (setitem df c vals)) = map fst (rows df)"
proof -
  assume a: "c \<notin> set (columns df)" and l: "length vals = length (rows df)"
  have "map fst (map (\<lambda>((d, vs), v). (d, vs @ [v])) (zip xs ys)) = map fst xs"
    if "length ys = length xs" for xs :: "(date \<times> fval list) list" and ys :: "fval list"
    using that by (induction xs ys rule: list_induct2') auto
  then show ?thesis using a l by (simp add: setitem_def)
qed

lemma at_date_valid:
  assumes "\<forall>(d, v)\<in>set s. v \<noteq> NaN"
  shows "at_date s d \<noteq> NaN \<longleftrightarrow> d \<in> set (map fst s)"
proof (cases "map_of s d")
  case None
  then have "d \<notin> set (map fst s)" by (simp add: map_of_eq_None_iff)
  then show ?thesis using None by (simp add: at_date_def)
next
  case (Some v)
  then have "(d, v) \<in> set s" by (rule map_of_SomeD)
  then have "v \<noteq> NaN" "d \<in> set (map fst s)" using assms by force+
  then show ?thesis using Some by (simp add: at_date_def)
qed

lemma joined_dates:
  assumes sb: "sorted_wrt (<) (map fst sb)" and sa: "sorted_wrt (<) (map fst sa)"
      and nb: "\<forall>(d, v)\<in>set sb. v \<noteq> NaN" and na: "\<forall>(d, v)\<in>set sa. v \<noteq> NaN"
  shows "\<exists>c. concat_axis1 k1 k2 sb sa = Inr c \<and>
             map fst (rows (dropna_frame c)) = filter (\<lambda>d. d \<in> set (map fst sa)) (map fst sb)"
proof (cases "map fst sb = map fst sa")
  case True
  let ?c = "\<lparr>columns = [k1, k2], rows = map (\<lambda>((d, v), (d', v')). (d, [v, v'])) (zip sb sa)\<rparr>"
  have c: "concat_axis1 k1 k2 sb sa = Inr ?c" using True by (simp add: concat_axis1_def)
  have len: "length sb = length sa" using True by (metis length_map)
  have "case x of (d, vs) \<Rightarrow> NaN \<notin> set vs" if "x \<in> set (rows ?c)" for x
  proof -
    from that obtain d v d' v' where x: "x = (d, [v, v'])" and z: "((d, v), (d', v')) \<in> set (zip sb sa)"
      by auto
    from z have "(d, v) \<in> set sb" "(d', v') \<in> set sa" by (auto dest: set_zip_leftD set_zip_rightD)
    then have "v \<noteq> NaN" "v' \<noteq> NaN" using nb na by force+
    then show ?thesis using x by auto
  qed
  then have keep: "filter (\<lambda>(d, vs). NaN \<notin> set vs) (rows ?c) = rows ?c"
    by (intro filter_True) blast
  have "map fst (map (\<lambda>((d, v), (d', v')). (d, [v, v'])) (zip xs ys)) = map fst xs"
    if "length xs = length ys" for xs ys :: series
    using that by (induction xs ys rule: list_induct2) auto
  from this[OF len] have "map fst (rows (dropna_frame ?c)) = map fst sb"
    using keep by (simp add: dropna_frame_def)
  moreover have "filter (\<lambda>d. d \<in> set (map fst sa)) (map fst sb) = map fst sb"
    unfolding True[symmetric] by (rule filter_True) simp
  ultimately show ?thesis using c by (intro exI[of _ ?c]) simp
next
  case False
  let ?u = "sort (remdups (map fst sb @ map fst sa))"
  let ?c = "\<lparr>columns = [k1, k2], rows = map (\<lambda>d. (d, [at_date sb d, at_date sa d])) ?u\<rparr>"
  have db: "distinct (map fst sb)" and da: "distinct (map fst sa)"
    using sb sa by (simp_all add: strict_sorted_iff)
  have c: "concat_axis1 k1 k2 sb sa = Inr ?c" using False db da by (simp add: concat_axis1_def)
  have "map fst (rows (dropna_frame ?c)) =
          filter (\<lambda>d. at_date sb d \<noteq> NaN \<and> at_date sa d \<noteq> NaN) ?u"
    by (simp add: dropna_frame_def filter_map comp_def) (metis)
  also have "\<dots> = filter (\<lambda>d. d \<in> set (map fst sb) \<and> d \<in> set (map fst sa)) ?u"
    by (simp only: at_date_valid[OF nb] at_date_valid[OF na])
  also have "\<dots> = filter (\<lambda>d. d \<in> set (map fst sa)) (map fst sb)"
  proof (rule sorted_distinct_set_unique)
    show "sorted (filter (\<lambda>d. d \<in> set (map fst sb) \<and> d \<in> set (map fst sa)) ?u)"
      by (rule sorted_wrt_filter) (rule sorted_sort)
    show "distinct (filter (\<lambda>d. d \<in> set (map fst sb) \<and> d \<in> set (map fst sa)) ?u)"
      by (rule distinct_filter) (simp only: distinct_sort distinct_remdups)
    show "sorted (filter (\<lambda>d. d \<in> set (map fst sa)) (map fst sb))"
      by (rule sorted_wrt_filter) (use sb in \<open>simp add: strict_sorted_iff\<close>)
    show "distinct (filter (\<lambda>d. d \<in> set (map fst sa)) (map fst sb))"
      by (rule distinct_filter) (rule db)
    show "set (filter (\<lambda>d. d \<in> set (map fst sb) \<and> d \<in> set (map fst sa)) ?u) =
          set (filter (\<lambda>d. d \<in> set (map fst sa)) (map fst sb))"
      by auto
  qed
  finally show ?thesis using c by (intro exI[of _ ?c]) simp
qed


lemma price_series_valid: "quarterly_price_series s \<Longrightarrow> \<forall>(d, v)\<in>set s. v \<noteq> NaN"
  by (auto simp: quarterly_price_series_def list_all_iff)

section \<open>The store during a run\<close>

lemma heap_kept_refl: "heap_kept w w"
  by (simp add: heap_kept_def)

lemma heap_kept_trans: "heap_kept w w1 \<Longrightarrow> heap_kept w1 w2 \<Longrightarrow> heap_kept w w2"
proof -
  assume a: "heap_kept w w1" and b: "heap_kept w1 w2"
  have le: "length (heap w) \<le> length (heap w1)"
  proof -
    from a have "length (take (length (heap w)) (heap w1)) = length (heap w)"
      by (simp only: heap_kept_def)
    then show ?thesis by simp
  qed
  have "take (length (heap w)) (heap w2) = take (length (heap w)) (take (length (heap w1)) (heap w2))"
    using le by (simp add: min_def)
  also have "\<dots> = take (length (heap w)) (heap w1)" using b by (simp only: heap_kept_def)
  also have "\<dots> = heap w" using a by (simp only: heap_kept_def)
  finally show ?thesis by (simp only: heap_kept_def)
qed

lemma heap_kept_nth: "heap_kept w w' \<Longrightarrow> a < length (heap w) \<Longrightarrow> heap w' ! a = heap w ! a"
  unfolding heap_kept_def by (metis nth_take)

lemma heap_kept_same: "heap w' = heap w \<Longrightarrow> heap_kept w w'"
  by (simp add: heap_kept_def)

lemma heap_kept_append: "heap w' = heap w @ new \<Longrightarrow> heap_kept w w'"
  by (simp add: heap_kept_def)

lemma heap_print_line: "heap (print_line s w) = heap w"
  by (simp add: print_line_def)

lemma compute_btc_ratio_kept: "heap_kept w (snd (compute_btc_ratio btc_df asset_df w))"
proof (cases "getitem (heap w ! btc_df) ''price''")
  case (Inl e)
  then show ?thesis by (simp add: compute_btc_ratio_def heap_kept_refl)
next
  case b: (Inr sb)
  show ?thesis
  proof (cases "getitem (heap w ! asset_df) ''price''")
    case (Inl e)
    then show ?thesis using b by (simp add: compute_btc_ratio_def heap_kept_refl)
  next
    case a: (Inr sa)
    show ?thesis
    proof (cases "concat_axis1 ''btc'' ''asset'' sb sa")
      case (Inl e)
      then show ?thesis using a b by (simp add: compute_btc_ratio_def heap_kept_refl)
    next
      case (Inr c)
      show ?thesis
        unfolding compute_btc_ratio_eq[OF b a Inr] by (rule heap_kept_append) simp
    qed
  qed
qed

lemma write_file_heap: "heap (snd (write_file p doc w)) = heap w"
  by (simp add: write_file_def)

lemma save_to_json_heap: "heap (snd (save_to_json df p n t w)) = heap w"
  by (simp add: save_to_json_def write_file_def mkdir_parents_def print_line_def Let_def)

lemma fetch_yfinance_heap: "heap (snd (fetch_yfinance_data dl t n w)) = heap w"
  by (simp add: fetch_yfinance_data_def print_line_def Let_def split: sum.splits)

lemma fetch_fred_heap: "heap (snd (fetch_fred_data rd s n w)) = heap w"
  by (simp add: fetch_fred_data_def print_line_def Let_def split: sum.splits)

lemma process_asset_kept: "heap_kept w (snd (process_asset e btc_df name fetched w))"
proof -
  let ?w1 = "w\<lparr>heap := heap w @ [fetched]\<rparr>"
  have k1: "heap_kept w ?w1" by (rule heap_kept_append) simp
  show ?thesis
  proof (cases "is_empty fetched")
    case True
    then show ?thesis using k1 by (simp add: process_asset_def alloc_def nth_append)
  next
    case False
    obtain r w2 where c: "compute_btc_ratio btc_df (length (heap w)) ?w1 = (r, w2)"
      by (cases "compute_btc_ratio btc_df (length (heap w)) ?w1")
    have k2: "heap_kept ?w1 w2" using compute_btc_ratio_kept[of ?w1 btc_df "length (heap w)"] c by simp
    show ?thesis
    proof (cases r)
      case (Inl x)
      then show ?thesis using False c heap_kept_trans[OF k1 k2]
        by (simp add: process_asset_def alloc_def nth_append)
    next
      case (Inr combined)
      have "heap_kept w2 (snd (save_to_json combined (DATA_DIR @ [name @ ''.json'']) name (now e name) w2))"
        by (rule heap_kept_same) (rule save_to_json_heap)
      then show ?thesis using False c Inr heap_kept_trans[OF heap_kept_trans[OF k1 k2]]
        by (simp add: process_asset_def alloc_def nth_append)
    qed
  qed
qed

lemma yf_step_kept: "heap_kept w (snd (yf_step e btc_df item w))"
proof (cases item)
  case (Pair name ticker)
  obtain r w1 where f: "fetch_yfinance_data (yf_download e) ticker name w = (r, w1)"
    by (cases "fetch_yfinance_data (yf_download e) ticker name w")
  have k1: "heap_kept w w1"
    using fetch_yfinance_heap[of "yf_download e" ticker name w] f by (simp add: heap_kept_same)
  show ?thesis
    using Pair f k1 heap_kept_trans[OF k1 process_asset_kept]
    by (cases r) (simp_all add: yf_step_def heap_kept_refl)
qed

lemma fred_step_kept: "heap_kept w (snd (fred_step e btc_df item w))"
proof (cases item)
  case (Pair name series_id)
  obtain r w1 where f: "fetch_fred_data (read_csv e) series_id name w = (r, w1)"
    by (cases "fetch_fred_data (read_csv e) series_id name w")
  have k1: "heap_kept w w1"
    using fetch_fred_heap[of "read_csv e" series_id name w] f by (simp add: heap_kept_same)
  show ?thesis
    using Pair f k1 heap_kept_trans[OF k1 process_asset_kept]
    by (cases r) (simp_all add: fred_step_def)
qed

lemma for_each_kept:
  assumes "\<And>x w. heap_kept w (snd (body x w))"
  shows "heap_kept w (snd (for_each body xs w))"
proof (induction xs arbitrary: w)
  case Nil
  show ?case by (simp add: heap_kept_refl)
next
  case (Cons x xs)
  obtain r w1 where b: "body x w = (r, w1)" by (cases "body x w")
  have k1: "heap_kept w w1" using assms[of w x] b by simp
  show ?case
    using b k1 heap_kept_trans[OF k1 Cons.IH[of w1]] by (cases r) simp_all
qed

section \<open>Properties of the orchestrator\<close>

lemma fetch_yfinance_disk:
  "files (snd (fetch_yfinance_data dl t n w)) = files w \<and>
   dirs (snd (fetch_yfinance_data dl t n w)) = dirs w"
  by (simp add: fetch_yfinance_data_def print_line_def Let_def split: sum.splits)

lemma banner_disk: "files (banner w) = files w \<and> dirs (banner w) = dirs w"
  by (simp add: banner_def print_line_def)

lemma btc_ticker: "map_of YFINANCE_TICKERS ''btc_usd'' = Some ''BTC-USD''"
  by (simp add: YFINANCE_TICKERS_def)

lemma main_abort:
  assumes "fst (fetch_yfinance_data (yf_download e) ''BTC-USD'' ''Bitcoin'' (banner w)) = Inr fetched"
      and "is_empty fetched"
  shows "fst (main e w) = Inr () \<and>
         files (snd (main e w)) = files w \<and>
         dirs (snd (main e w)) = dirs w \<and>
         out (snd (main e w)) =
           out (snd (fetch_yfinance_data (yf_download e) ''BTC-USD'' ''Bitcoin'' (banner w)))
             @ [''Error: Could not fetch BTC data. Aborting.'']"
proof -
  obtain w1 where f: "fetch_yfinance_data (yf_download e) ''BTC-USD'' ''Bitcoin'' (banner w) = (Inr fetched, w1)"
    using assms(1) by (cases "fetch_yfinance_data (yf_download e) ''BTC-USD'' ''Bitcoin'' (banner w)") simp
  have d: "files w1 = files w" "dirs w1 = dirs w"
    using fetch_yfinance_disk[of "yf_download e" "''BTC-USD''" "''Bitcoin''" "banner w"] f
    by (simp_all add: banner_disk)
  have "main e w = (Inr (), print_line ''Error: Could not fetch BTC data. Aborting.''
                             (w1\<lparr>heap := heap w1 @ [fetched]\<rparr>))"
    using f assms(2) by (simp add: main_def btc_ticker alloc_def nth_append)
  then show ?thesis using d f by (simp add: print_line_def)
qed

lemma fetch_yfinance_no_rows:
  assumes "dl ticker = Inr df" and "yf_empty df"
  shows "fst (fetch_yfinance_data dl ticker name w) = Inr empty_frame"
  using assms by (simp add: fetch_yfinance_data_def Let_def)

lemma is_empty_empty_frame: "is_empty empty_frame"
  by (simp add: is_empty_def empty_frame_def)

section \<open>Properties of the ratio document\<close>










section \<open>Missing values and the housing file\<close>

















section \<open>Housing series in the run\<close>








section \<open>Market tickers in the run\<close>



section \<open>Claims\<close>

text \<open>
  C9. Resampling to quarter-end-last is idempotent: on every series, the two lines the
  fetchers run (\<open>resample("QE").last()\<close>, then \<open>dropna()\<close>) give the same quarterly
  series when run a second time on their own result, and so does the resampling alone.
\<close>

theorem resampling_idempotent:
  "quarterly_last (quarterly_last s) = quarterly_last s \<and>
   resample_QE_last (resample_QE_last s) = resample_QE_last s"
  by (simp add: quarterly_last_idem resample_idem)




text \<open>
  C2. For a BTC series and an asset series that are quarterly price series, held in the
  tables \<open>btc_df\<close> and \<open>asset_df\<close>, \<open>compute_btc_ratio\<close> returns a table whose
  dates are exactly the dates present in both inputs (an inner join), in ascending order;
  so it has at most as many rows as the shorter input.
\<close>

theorem ratio_inner_join:
  assumes "btc_df < length (heap w)" and "asset_df < length (heap w)"
      and "heap w ! btc_df = to_frame ''price'' sb"
      and "heap w ! asset_df = to_frame ''price'' sa"
      and "quarterly_price_series sb" and "quarterly_price_series sa"
  shows "\<exists>combined w'. compute_btc_ratio btc_df asset_df w = (Inr combined, w') \<and>
           map fst (rows (heap w' ! combined)) = filter (\<lambda>d. d \<in> set (map fst sa)) (map fst sb) \<and>
           set (map fst (rows (heap w' ! combined))) = set (map fst sb) \<inter> set (map fst sa) \<and>
           length (rows (heap w' ! combined)) \<le> min (length sb) (length sa) \<and>
           sorted_wrt (<) (map fst (rows (heap w' ! combined)))"
proof -
  have sb: "sorted_wrt (<) (map fst sb)" and sa: "sorted_wrt (<) (map fst sa)"
    using assms(5,6) by (simp_all add: quarterly_price_series_def)
  from joined_dates[OF sb sa price_series_valid[OF assms(5)] price_series_valid[OF assms(6)]]
  obtain c where c: "concat_axis1 ''btc'' ''asset'' sb sa = Inr c"
    and dates: "map fst (rows (dropna_frame c)) = filter (\<lambda>d. d \<in> set (map fst sa)) (map fst sb)"
    by blast
  let ?ratio = "map (\<lambda>(d, vs). fdiv (cell (columns c) vs ''asset'') (cell (columns c) vs ''btc''))
                      (rows (dropna_frame c))"
  let ?final = "setitem (dropna_frame c) ''asset_per_btc'' ?ratio"
  let ?w' = "w\<lparr>heap := heap w @ [c, ?final]\<rparr>"
  have run: "compute_btc_ratio btc_df asset_df w = (Inr (Suc (length (heap w))), ?w')"
    by (rule compute_btc_ratio_eq[OF _ _ c]) (simp_all add: assms(3,4) getitem_to_frame)
  have cell: "heap ?w' ! Suc (length (heap w)) = ?final" by (simp add: nth_append)
  have "''asset_per_btc'' \<notin> set (columns (dropna_frame c))"
    using concat_columns[OF c] by (simp add: dropna_frame_def)
  then have "map fst (rows ?final) = map fst (rows (dropna_frame c))"
    by (rule setitem_new_rows) simp
  then have d: "map fst (rows ?final) = filter (\<lambda>d. d \<in> set (map fst sa)) (map fst sb)"
    using dates by simp
  have s: "set (map fst (rows ?final)) = set (map fst sb) \<inter> set (map fst sa)"
    unfolding d by auto
  have so: "sorted_wrt (<) (map fst (rows ?final))"
    unfolding d by (rule sorted_wrt_filter) (rule sb)
  let ?both = "filter (\<lambda>d. d \<in> set (map fst sa)) (map fst sb)"
  have lenf: "length (rows ?final) = length ?both"
    using arg_cong[OF d, of length] by (simp only: length_map)
  have "length ?both \<le> length (map fst sb)" by (rule length_filter_le)
  then have l1: "length ?both \<le> length sb" by (simp only: length_map)
  have "distinct ?both" by (rule distinct_filter) (use sb in \<open>simp add: strict_sorted_iff\<close>)
  then have "length ?both = card (set ?both)" by (rule distinct_card[symmetric])
  also have "\<dots> \<le> card (set (map fst sa))" by (intro card_mono) auto
  also have "\<dots> \<le> length (map fst sa)" by (rule card_length)
  finally have l2: "length ?both \<le> length sa" by (simp only: length_map)
  have l: "length (rows ?final) \<le> min (length sb) (length sa)"
    unfolding lenf using l1 l2 by (rule min.boundedI)
  show ?thesis
  proof (intro exI[of _ "Suc (length (heap w))"] exI[of _ ?w'] conjI)
    show "compute_btc_ratio btc_df asset_df w = (Inr (Suc (length (heap w))), ?w')" by (rule run)
    show "map fst (rows (heap ?w' ! Suc (length (heap w)))) = ?both"
      unfolding cell by (rule d)
    show "set (map fst (rows (heap ?w' ! Suc (length (heap w))))) = set (map fst sb) \<inter> set (map fst sa)"
      unfolding cell by (rule s)
    show "length (rows (heap ?w' ! Suc (length (heap w)))) \<le> min (length sb) (length sa)"
      unfolding cell by (rule l)
    show "sorted_wrt (<) (map fst (rows (heap ?w' ! Suc (length (heap w)))))"
      unfolding cell by (rule so)
  qed
qed

theorem ratio_inner_join_witness:
  "(0::nat) < length [to_frame ''price'' [((2021, 3, 31), Num 50000), ((2021, 6, 30), Num 35000)],
                      to_frame ''price'' [((2021, 6, 30), Num 1770), ((2021, 9, 30), Num 1750)]] \<and>
   quarterly_price_series [((2021, 3, 31), Num 50000), ((2021, 6, 30), Num 35000)] \<and>
   quarterly_price_series [((2021, 6, 30), Num 1770), ((2021, 9, 30), Num 1750)] \<and>
   (\<exists>combined w'.
      compute_btc_ratio 0 1
        \<lparr>heap = [to_frame ''price'' [((2021, 3, 31), Num 50000), ((2021, 6, 30), Num 35000)],
                 to_frame ''price'' [((2021, 6, 30), Num 1770), ((2021, 9, 30), Num 1750)]],
          dirs = {}, files = Map.empty, out = []\<rparr> = (Inr combined, w') \<and>
      map fst (rows (heap w' ! combined)) = [(2021, 6, 30)] \<and>
      length (rows (heap w' ! combined)) \<le> 2)"
proof -
  let ?sb = "[((2021, 3, 31), Num 50000), ((2021, 6, 30), Num 35000)] :: series"
  let ?sa = "[((2021, 6, 30), Num 1770), ((2021, 9, 30), Num 1750)] :: series"
  let ?w = "\<lparr>heap = [to_frame ''price'' ?sb, to_frame ''price'' ?sa],
          dirs = {}, files = Map.empty, out = []\<rparr>"
  have qb: "quarterly_price_series ?sb" and qa: "quarterly_price_series ?sa"
    by (simp_all add: quarterly_price_series_def quarter_of_def quarter_end_def less_prod_def)
  have "\<exists>combined w'. compute_btc_ratio 0 1 ?w = (Inr combined, w') \<and>
           map fst (rows (heap w' ! combined)) = filter (\<lambda>d. d \<in> set (map fst ?sa)) (map fst ?sb) \<and>
           set (map fst (rows (heap w' ! combined))) = set (map fst ?sb) \<inter> set (map fst ?sa) \<and>
           length (rows (heap w' ! combined)) \<le> min (length ?sb) (length ?sa) \<and>
           sorted_wrt (<) (map fst (rows (heap w' ! combined)))"
    by (rule ratio_inner_join[of 0 ?w 1 ?sb ?sa]) (simp_all add: qb qa)
  then obtain combined w' where "compute_btc_ratio 0 1 ?w = (Inr combined, w')"
    "map fst (rows (heap w' ! combined)) = filter (\<lambda>d. d \<in> set (map fst ?sa)) (map fst ?sb)"
    "length (rows (heap w' ! combined)) \<le> min (length ?sb) (length ?sa)" by blast
  moreover have "filter (\<lambda>d. d \<in> set (map fst ?sa)) (map fst ?sb) = [(2021, 6, 30)]" by simp
  ultimately have "\<exists>combined w'. compute_btc_ratio 0 1 ?w = (Inr combined, w') \<and>
      map fst (rows (heap w' ! combined)) = [(2021, 6, 30)] \<and>
      length (rows (heap w' ! combined)) \<le> 2" by auto
  then show ?thesis using qb qa by simp
qed

text \<open>
  C10. \<open>compute_btc_ratio\<close> never modifies its inputs: after a call, whatever its
  outcome, the tables at the addresses \<open>btc_df\<close> and \<open>asset_df\<close> are what they were.
  The same holds for the BTC table over the whole of either loop of the run, so every
  ratio computation of a run reads the same anchor series.
\<close>

theorem compute_btc_ratio_keeps_inputs:
  "(btc_df < length (heap w) \<longrightarrow>
      heap (snd (compute_btc_ratio btc_df asset_df w)) ! btc_df = heap w ! btc_df) \<and>
   (asset_df < length (heap w) \<longrightarrow>
      heap (snd (compute_btc_ratio btc_df asset_df w)) ! asset_df = heap w ! asset_df) \<and>
   (btc_df < length (heap w) \<longrightarrow>
      heap (snd (for_each (yf_step e btc_df) tickers w)) ! btc_df = heap w ! btc_df \<and>
      heap (snd (for_each (fred_step e btc_df) series w)) ! btc_df = heap w ! btc_df)"
proof (intro conjI impI)
  show "heap (snd (compute_btc_ratio btc_df asset_df w)) ! btc_df = heap w ! btc_df"
    if "btc_df < length (heap w)"
    using compute_btc_ratio_kept that by (rule heap_kept_nth)
  show "heap (snd (compute_btc_ratio btc_df asset_df w)) ! asset_df = heap w ! asset_df"
    if "asset_df < length (heap w)"
    using compute_btc_ratio_kept that by (rule heap_kept_nth)
  show "heap (snd (for_each (yf_step e btc_df) tickers w)) ! btc_df = heap w ! btc_df"
    if "btc_df < length (heap w)"
    using for_each_kept[of "yf_step e btc_df", OF yf_step_kept] that by (rule heap_kept_nth)
  show "heap (snd (for_each (fred_step e btc_df) series w)) ! btc_df = heap w ! btc_df"
    if "btc_df < length (heap w)"
    using for_each_kept[of "fred_step e btc_df", OF fred_step_kept] that by (rule heap_kept_nth)
qed

theorem compute_btc_ratio_keeps_inputs_witness:
  "(0::nat) < length [to_frame ''price'' [((2021, 3, 31), Num 50000)],
                      to_frame ''price'' [((2021, 3, 31), Num 1800)]] \<and>
   heap (snd (compute_btc_ratio 0 1
     \<lparr>heap = [to_frame ''price'' [((2021, 3, 31), Num 50000)],
              to_frame ''price'' [((2021, 3, 31), Num 1800)]],
      dirs = {}, files = Map.empty, out = []\<rparr>)) ! 0 =
     to_frame ''price'' [((2021, 3, 31), Num 50000)] \<and>
   heap (snd (compute_btc_ratio 0 1
     \<lparr>heap = [to_frame ''price'' [((2021, 3, 31), Num 50000)],
              to_frame ''price'' [((2021, 3, 31), Num 1800)]],
      dirs = {}, files = Map.empty, out = []\<rparr>)) ! 1 =
     to_frame ''price'' [((2021, 3, 31), Num 1800)] \<and>
   heap (snd (for_each
       (yf_step \<lparr>yf_download = (\<lambda>t. Inl (ProviderError ''offline'')),
                 read_csv = (\<lambda>u. Inl (ProviderError ''offline'')),
                 now = (\<lambda>n. ''2026-01-01T00:00:00'')\<rparr> 0)
       YFINANCE_TICKERS
       \<lparr>heap = [to_frame ''price'' [((2021, 3, 31), Num 50000)],
                to_frame ''price'' [((2021, 3, 31), Num 1800)]],
        dirs = {}, files = Map.empty, out = []\<rparr>)) ! 0 =
     to_frame ''price'' [((2021, 3, 31), Num 50000)] \<and>
   heap (snd (for_each
       (fred_step \<lparr>yf_download = (\<lambda>t. Inl (ProviderError ''offline'')),
                   read_csv = (\<lambda>u. Inl (ProviderError ''offline'')),
                   now = (\<lambda>n. ''2026-01-01T00:00:00'')\<rparr> 0)
       FRED_SERIES
       \<lparr>heap = [to_frame ''price'' [((2021, 3, 31), Num 50000)],
                to_frame ''price'' [((2021, 3, 31), Num 1800)]],
        dirs = {}, files = Map.empty, out = []\<rparr>)) ! 0 =
     to_frame ''price'' [((2021, 3, 31), Num 50000)]"
  using compute_btc_ratio_keeps_inputs
    [of 0 "\<lparr>heap = [to_frame ''price'' [((2021, 3, 31), Num 50000)],
                    to_frame ''price'' [((2021, 3, 31), Num 1800)]],
            dirs = {}, files = Map.empty, out = []\<rparr>" 1
        "\<lparr>yf_download = (\<lambda>t. Inl (ProviderError ''offline'')),
          read_csv = (\<lambda>u. Inl (ProviderError ''offline'')),
          now = (\<lambda>n. ''2026-01-01T00:00:00'')\<rparr>" YFINANCE_TICKERS FRED_SERIES]
  by simp

text \<open>
  C1. When the fetch of the anchor series comes back empty (the provider returned no
  rows, or the fetched table is empty for any other reason), \<open>main\<close> returns at once:
  it prints the error line last, and the disk is as it was before the run, so no ratio
  document and no BTC-in-USD document has been written.
\<close>

theorem main_aborts_on_empty_btc:
  "(fst (fetch_yfinance_data (yf_download e) ''BTC-USD'' ''Bitcoin'' (banner w)) = Inr fetched \<and>
    is_empty fetched \<or>
    yf_download e ''BTC-USD'' = Inr df \<and> yf_empty df) \<longrightarrow>
   fst (main e w) = Inr () \<and>
   files (snd (main e w)) = files w \<and>
   dirs (snd (main e w)) = dirs w \<and>
   files (snd (main e w)) (DATA_DIR @ [''btc_usd.json'']) = files w (DATA_DIR @ [''btc_usd.json'']) \<and>
   out (snd (main e w)) =
     out (snd (fetch_yfinance_data (yf_download e) ''BTC-USD'' ''Bitcoin'' (banner w)))
       @ [''Error: Could not fetch BTC data. Aborting.'']"
proof
  assume "fst (fetch_yfinance_data (yf_download e) ''BTC-USD'' ''Bitcoin'' (banner w)) = Inr fetched \<and>
    is_empty fetched \<or> yf_download e ''BTC-USD'' = Inr df \<and> yf_empty df"
  then obtain fr where
    "fst (fetch_yfinance_data (yf_download e) ''BTC-USD'' ''Bitcoin'' (banner w)) = Inr fr"
    "is_empty fr"
    using fetch_yfinance_no_rows[of "yf_download e" "''BTC-USD''" df "''Bitcoin''" "banner w"]
      is_empty_empty_frame by blast
  from main_abort[OF this] show
   "fst (main e w) = Inr () \<and>
   files (snd (main e w)) = files w \<and>
   dirs (snd (main e w)) = dirs w \<and>
   files (snd (main e w)) (DATA_DIR @ [''btc_usd.json'']) = files w (DATA_DIR @ [''btc_usd.json'']) \<and>
   out (snd (main e w)) =
     out (snd (fetch_yfinance_data (yf_download e) ''BTC-USD'' ''Bitcoin'' (banner w)))
       @ [''Error: Could not fetch BTC data. Aborting.'']" by simp
qed

theorem main_aborts_on_empty_btc_witness:
  "yf_download \<lparr>yf_download = (\<lambda>t. Inr \<lparr>yf_columns = Index [], yf_rows = []\<rparr>),
                read_csv = (\<lambda>u. Inl (ProviderError ''offline'')),
                now = (\<lambda>n. ''2026-01-01T00:00:00'')\<rparr> ''BTC-USD'' =
     Inr \<lparr>yf_columns = Index [], yf_rows = []\<rparr> \<and>
   yf_empty \<lparr>yf_columns = Index [], yf_rows = []\<rparr> \<and>
   fst (main \<lparr>yf_download = (\<lambda>t. Inr \<lparr>yf_columns = Index [], yf_rows = []\<rparr>),
              read_csv = (\<lambda>u. Inl (ProviderError ''offline'')),
              now = (\<lambda>n. ''2026-01-01T00:00:00'')\<rparr>
             \<lparr>heap = [], dirs = {}, files = Map.empty, out = []\<rparr>) = Inr () \<and>
   files (snd (main \<lparr>yf_download = (\<lambda>t. Inr \<lparr>yf_columns = Index [], yf_rows = []\<rparr>),
              read_csv = (\<lambda>u. Inl (ProviderError ''offline'')),
              now = (\<lambda>n. ''2026-01-01T00:00:00'')\<rparr>
             \<lparr>heap = [], dirs = {}, files = Map.empty, out = []\<rparr>)) = Map.empty \<and>
   out (snd (main \<lparr>yf_download = (\<lambda>t. Inr \<lparr>yf_columns = Index [], yf_rows = []\<rparr>),
              read_csv = (\<lambda>u. Inl (ProviderError ''offline'')),
              now = (\<lambda>n. ''2026-01-01T00:00:00'')\<rparr>
             \<lparr>heap = [], dirs = {}, files = Map.empty, out = []\<rparr>)) =
     [replicate 50 (CHR ''=''), ''BTC Purchasing Power - Data Update'', replicate 50 (CHR ''=''),
      CHR 0x0A # ''[1/3] Fetching yfinance data...'', ''Fetching Bitcoin (BTC-USD)...'',
      ''  Warning: No data returned for BTC-USD'',
      ''Error: Could not fetch BTC data. Aborting.'']"
proof -
  let ?e = "\<lparr>yf_download = (\<lambda>t. Inr \<lparr>yf_columns = Index [], yf_rows = []\<rparr>),
              read_csv = (\<lambda>u. Inl (ProviderError ''offline'')),
              now = (\<lambda>n. ''2026-01-01T00:00:00'')\<rparr>"
  let ?w = "\<lparr>heap = [], dirs = {}, files = Map.empty, out = []\<rparr>"
  have h: "yf_download ?e ''BTC-USD'' = Inr \<lparr>yf_columns = Index [], yf_rows = []\<rparr> \<and>
           yf_empty \<lparr>yf_columns = Index [], yf_rows = []\<rparr>"
    by (simp add: yf_empty_def)
  have o: "out (snd (fetch_yfinance_data (yf_download ?e) ''BTC-USD'' ''Bitcoin'' (banner ?w))) =
     [replicate 50 (CHR ''=''), ''BTC Purchasing Power - Data Update'', replicate 50 (CHR ''=''),
      CHR 0x0A # ''[1/3] Fetching yfinance data...'', ''Fetching Bitcoin (BTC-USD)...'',
      ''  Warning: No data returned for BTC-USD'']"
    by (simp add: fetch_yfinance_data_def yf_empty_def banner_def print_line_def)
  from main_aborts_on_empty_btc[of ?e ?w _ "\<lparr>yf_columns = Index [], yf_rows = []\<rparr>"] h o
  show ?thesis by simp
qed

text \<open>
  C6. \<open>save_to_json\<close> creates the parent directory before it writes;
  \<open>save_btc_usd\<close> opens its file with no \<open>mkdir\<close> before it.
  With no \<open>data\<close> directory on disk, \<open>save_btc_usd\<close> raises \<open>FileNotFoundError\<close>
  and writes nothing, where \<open>save_to_json\<close> on the same disk creates the directory and
  succeeds; since \<open>main\<close> calls \<open>save_btc_usd\<close> first, the whole run ends there.
\<close>

theorem save_btc_usd_needs_directory:
  "fst (save_btc_usd 0 ''2026-01-01T00:00:00''
          \<lparr>heap = [to_frame ''price'' [((2021, 3, 31), Num 50000)]],
            dirs = {}, files = Map.empty, out = []\<rparr>) =
     Inl (FileNotFoundError ''No such file or directory: /data/btc_usd.json'') \<and>
   files (snd (save_btc_usd 0 ''2026-01-01T00:00:00''
          \<lparr>heap = [to_frame ''price'' [((2021, 3, 31), Num 50000)]],
            dirs = {}, files = Map.empty, out = []\<rparr>)) = Map.empty \<and>
   dirs (snd (save_btc_usd 0 ''2026-01-01T00:00:00''
          \<lparr>heap = [to_frame ''price'' [((2021, 3, 31), Num 50000)]],
            dirs = {}, files = Map.empty, out = []\<rparr>)) = {} \<and>
   fst (save_to_json 0 (DATA_DIR @ [''gold_usd.json'']) ''gold_usd'' ''2026-01-01T00:00:00''
          \<lparr>heap = [to_frame ''price'' [((2021, 3, 31), Num 50000)]],
            dirs = {}, files = Map.empty, out = []\<rparr>) = Inr () \<and>
   dirs (snd (save_to_json 0 (DATA_DIR @ [''gold_usd.json'']) ''gold_usd'' ''2026-01-01T00:00:00''
          \<lparr>heap = [to_frame ''price'' [((2021, 3, 31), Num 50000)]],
            dirs = {}, files = Map.empty, out = []\<rparr>)) = {DATA_DIR} \<and>
   fst (main \<lparr>yf_download = (\<lambda>t. Inr \<lparr>yf_columns = Index [''Close''],
                                        yf_rows = [((2021, 3, 30), [Num 50000])]\<rparr>),
              read_csv = (\<lambda>u. Inl (ProviderError ''offline'')),
              now = (\<lambda>n. ''2026-01-01T00:00:00'')\<rparr>
             \<lparr>heap = [], dirs = {}, files = Map.empty, out = []\<rparr>) =
     Inl (FileNotFoundError ''No such file or directory: /data/btc_usd.json'') \<and>
   files (snd (main \<lparr>yf_download = (\<lambda>t. Inr \<lparr>yf_columns = Index [''Close''],
                                        yf_rows = [((2021, 3, 30), [Num 50000])]\<rparr>),
              read_csv = (\<lambda>u. Inl (ProviderError ''offline'')),
              now = (\<lambda>n. ''2026-01-01T00:00:00'')\<rparr>
             \<lparr>heap = [], dirs = {}, files = Map.empty, out = []\<rparr>)) = Map.empty"
  by (simp add: save_btc_usd_def save_to_json_def write_file_def dir_exists_def DATA_DIR_def
        path_str_def to_frame_def mkdir_parents_def print_line_def upt_conv_Cons
        main_def btc_ticker banner_def alloc_def is_empty_def eval_defs)













end
